theory Spec2Isabelle
  imports Complex_Main "HOL-Library.AList"
begin

section \<open>Python strings\<close>

text \<open>
  A Python \<open>str\<close> is a sequence of Unicode code points, so a character is a natural
  number (its \<open>ord\<close>) and a string a list of them. \<open>ascii\<close> turns an Isabelle string
  literal into such a list, for writing inputs down.
\<close>

type_synonym pychar = nat
type_synonym pystr = "nat list"

definition ascii :: "string \<Rightarrow> pystr" where
  "ascii s = map of_char s"

abbreviation (input) DQUOTE :: pychar where "DQUOTE \<equiv> 0x22"
abbreviation (input) BACKSLASH :: pychar where "BACKSLASH \<equiv> 0x5C"
abbreviation (input) LBRACE :: pychar where "LBRACE \<equiv> 0x7B"
abbreviation (input) RBRACE :: pychar where "RBRACE \<equiv> 0x7D"
abbreviation (input) LBRACKET :: pychar where "LBRACKET \<equiv> 0x5B"
abbreviation (input) RBRACKET :: pychar where "RBRACKET \<equiv> 0x5D"
abbreviation (input) COMMA :: pychar where "COMMA \<equiv> 0x2C"
abbreviation (input) COLON :: pychar where "COLON \<equiv> 0x3A"
abbreviation (input) DOT :: pychar where "DOT \<equiv> 0x2E"
abbreviation (input) MINUS :: pychar where "MINUS \<equiv> 0x2D"
abbreviation (input) PLUS :: pychar where "PLUS \<equiv> 0x2B"
abbreviation (input) UNDERSCORE :: pychar where "UNDERSCORE \<equiv> 0x5F"
abbreviation (input) ZERO :: pychar where "ZERO \<equiv> 0x30"

section \<open>The built-ins of the host language\<close>

text \<open>
  The decoder calls \<open>str.isspace\<close>, \<open>str.isdigit\<close>, \<open>str.isnumeric\<close>, \<open>str.lower\<close>,
  \<open>int\<close> and \<open>float\<close>. They are Unicode aware, and several properties of the decoder
  depend on that, so they are modelled on all code points. The tables are those of the
  Unicode Character Database 14.0 (CPython 3.11): the code points \<open>c\<close> with
  \<open>chr(c).isspace()\<close>, \<open>.isdecimal()\<close>, \<open>.isdigit()\<close> and \<open>.isnumeric()\<close>, as inclusive
  ranges. In every range of \<open>decimal_ranges\<close> the digit value of \<open>c\<close> is
  \<open>(c - lo) mod 10\<close>.
\<close>

definition space_ranges :: "(nat \<times> nat) list" where
  "space_ranges =
    [(9, 13), (28, 32), (133, 133), (160, 160), (5760, 5760), (8192, 8202), (8232, 8233),
     (8239, 8239), (8287, 8287), (12288, 12288)]"

definition decimal_ranges :: "(nat \<times> nat) list" where
  "decimal_ranges =
    [(48, 57), (1632, 1641), (1776, 1785), (1984, 1993), (2406, 2415), (2534, 2543),
     (2662, 2671), (2790, 2799), (2918, 2927), (3046, 3055), (3174, 3183), (3302, 3311),
     (3430, 3439), (3558, 3567), (3664, 3673), (3792, 3801), (3872, 3881), (4160, 4169),
     (4240, 4249), (6112, 6121), (6160, 6169), (6470, 6479), (6608, 6617), (6784, 6793),
     (6800, 6809), (6992, 7001), (7088, 7097), (7232, 7241), (7248, 7257), (42528, 42537),
     (43216, 43225), (43264, 43273), (43472, 43481), (43504, 43513), (43600, 43609),
     (44016, 44025), (65296, 65305), (66720, 66729), (68912, 68921), (69734, 69743),
     (69872, 69881), (69942, 69951), (70096, 70105), (70384, 70393), (70736, 70745),
     (70864, 70873), (71248, 71257), (71360, 71369), (71472, 71481), (71904, 71913),
     (72016, 72025), (72784, 72793), (73040, 73049), (73120, 73129), (92768, 92777),
     (92864, 92873), (93008, 93017), (120782, 120831), (123200, 123209), (123632, 123641),
     (125264, 125273), (130032, 130041)]"

definition digit_ranges :: "(nat \<times> nat) list" where
  "digit_ranges =
    [(48, 57), (178, 179), (185, 185), (1632, 1641), (1776, 1785), (1984, 1993), (2406, 2415),
     (2534, 2543), (2662, 2671), (2790, 2799), (2918, 2927), (3046, 3055), (3174, 3183),
     (3302, 3311), (3430, 3439), (3558, 3567), (3664, 3673), (3792, 3801), (3872, 3881),
     (4160, 4169), (4240, 4249), (4969, 4977), (6112, 6121), (6160, 6169), (6470, 6479),
     (6608, 6618), (6784, 6793), (6800, 6809), (6992, 7001), (7088, 7097), (7232, 7241),
     (7248, 7257), (8304, 8304), (8308, 8313), (8320, 8329), (9312, 9320), (9332, 9340),
     (9352, 9360), (9450, 9450), (9461, 9469), (9471, 9471), (10102, 10110), (10112, 10120),
     (10122, 10130), (42528, 42537), (43216, 43225), (43264, 43273), (43472, 43481),
     (43504, 43513), (43600, 43609), (44016, 44025), (65296, 65305), (66720, 66729),
     (68160, 68163), (68912, 68921), (69216, 69224), (69714, 69722), (69734, 69743),
     (69872, 69881), (69942, 69951), (70096, 70105), (70384, 70393), (70736, 70745),
     (70864, 70873), (71248, 71257), (71360, 71369), (71472, 71481), (71904, 71913),
     (72016, 72025), (72784, 72793), (73040, 73049), (73120, 73129), (92768, 92777),
     (92864, 92873), (93008, 93017), (120782, 120831), (123200, 123209), (123632, 123641),
     (125264, 125273), (127232, 127242), (130032, 130041)]"

definition numeric_ranges :: "(nat \<times> nat) list" where
  "numeric_ranges =
    [(48, 57), (178, 179), (185, 185), (188, 190), (1632, 1641), (1776, 1785), (1984, 1993),
     (2406, 2415), (2534, 2543), (2548, 2553), (2662, 2671), (2790, 2799), (2918, 2927),
     (2930, 2935), (3046, 3058), (3174, 3183), (3192, 3198), (3302, 3311), (3416, 3422),
     (3430, 3448), (3558, 3567), (3664, 3673), (3792, 3801), (3872, 3891), (4160, 4169),
     (4240, 4249), (4969, 4988), (5870, 5872), (6112, 6121), (6128, 6137), (6160, 6169),
     (6470, 6479), (6608, 6618), (6784, 6793), (6800, 6809), (6992, 7001), (7088, 7097),
     (7232, 7241), (7248, 7257), (8304, 8304), (8308, 8313), (8320, 8329), (8528, 8578),
     (8581, 8585), (9312, 9371), (9450, 9471), (10102, 10131), (11517, 11517), (12295, 12295),
     (12321, 12329), (12344, 12346), (12690, 12693), (12832, 12841), (12872, 12879),
     (12881, 12895), (12928, 12937), (12977, 12991), (13317, 13317), (13443, 13443),
     (14378, 14378), (15181, 15181), (19968, 19968), (19971, 19971), (19975, 19975),
     (19977, 19977), (20061, 20061), (20108, 20108), (20116, 20116), (20118, 20118),
     (20159, 20160), (20191, 20191), (20200, 20200), (20237, 20237), (20336, 20336),
     (20740, 20740), (20806, 20806), (20841, 20841), (20843, 20843), (20845, 20845),
     (21313, 21313), (21315, 21317), (21324, 21324), (21441, 21444), (22235, 22235),
     (22769, 22769), (22777, 22777), (24186, 24186), (24318, 24319), (24332, 24334),
     (24336, 24336), (25342, 25342), (25420, 25420), (26578, 26578), (28422, 28422),
     (29590, 29590), (30334, 30334), (32902, 32902), (33836, 33836), (36014, 36014),
     (36019, 36019), (36144, 36144), (38433, 38433), (38470, 38470), (38476, 38476),
     (38520, 38520), (38646, 38646), (42528, 42537), (42726, 42735), (43056, 43061),
     (43216, 43225), (43264, 43273), (43472, 43481), (43504, 43513), (43600, 43609),
     (44016, 44025), (63851, 63851), (63859, 63859), (63864, 63864), (63922, 63922),
     (63953, 63953), (63955, 63955), (63997, 63997), (65296, 65305), (65799, 65843),
     (65856, 65912), (65930, 65931), (66273, 66299), (66336, 66339), (66369, 66369),
     (66378, 66378), (66513, 66517), (66720, 66729), (67672, 67679), (67705, 67711),
     (67751, 67759), (67835, 67839), (67862, 67867), (68028, 68029), (68032, 68047),
     (68050, 68095), (68160, 68168), (68221, 68222), (68253, 68255), (68331, 68335),
     (68440, 68447), (68472, 68479), (68521, 68527), (68858, 68863), (68912, 68921),
     (69216, 69246), (69405, 69414), (69457, 69460), (69573, 69579), (69714, 69743),
     (69872, 69881), (69942, 69951), (70096, 70105), (70113, 70132), (70384, 70393),
     (70736, 70745), (70864, 70873), (71248, 71257), (71360, 71369), (71472, 71483),
     (71904, 71922), (72016, 72025), (72784, 72812), (73040, 73049), (73120, 73129),
     (73664, 73684), (74752, 74862), (92768, 92777), (92864, 92873), (93008, 93017),
     (93019, 93025), (93824, 93846), (119520, 119539), (119648, 119672), (120782, 120831),
     (123200, 123209), (123632, 123641), (125127, 125135), (125264, 125273), (126065, 126123),
     (126125, 126127), (126129, 126132), (126209, 126253), (126255, 126269), (127232, 127244),
     (130032, 130041), (131073, 131073), (131172, 131172), (131298, 131298), (131361, 131361),
     (133418, 133418), (133507, 133507), (133516, 133516), (133532, 133532), (133866, 133866),
     (133885, 133885), (133913, 133913), (140176, 140176), (141720, 141720), (146203, 146203),
     (156269, 156269), (194704, 194704)]"

definition in_ranges :: "(nat \<times> nat) list \<Rightarrow> nat \<Rightarrow> bool" where
  "in_ranges rs c = list_ex (\<lambda>(lo, hi). lo \<le> c \<and> c \<le> hi) rs"

definition isspace :: "pychar \<Rightarrow> bool" where
  "isspace c = in_ranges space_ranges c"

definition isdigit :: "pychar \<Rightarrow> bool" where
  "isdigit c = in_ranges digit_ranges c"

definition isnumeric :: "pychar \<Rightarrow> bool" where
  "isnumeric c = in_ranges numeric_ranges c"

definition decimal_value :: "pychar \<Rightarrow> nat option" where
  "decimal_value c =
     (case find (\<lambda>(lo, hi). lo \<le> c \<and> c \<le> hi) decimal_ranges of
        None \<Rightarrow> None
      | Some (lo, hi) \<Rightarrow> Some ((c - lo) mod 10))"

text \<open>
  \<open>hd.lower() in "abcdef"\<close> for a one-character string \<open>hd\<close>: the lower-case form of
  \<open>hd\<close> is a substring of \<open>abcdef\<close>. The only code points whose lower-case form is one
  of the letters a to f are those letters and A to F.
\<close>

definition lower_in_abcdef :: "pychar \<Rightarrow> bool" where
  "lower_in_abcdef c = ((0x61 \<le> c \<and> c \<le> 0x66) \<or> (0x41 \<le> c \<and> c \<le> 0x46))"

subsection \<open>\<open>int\<close> and \<open>float\<close> of a string\<close>

text \<open>
  Both first replace every code point from 127 on by an ASCII character: a space for a
  Unicode space, the ASCII digit for a Unicode decimal digit; any other such code point
  makes the conversion fail. The result is stripped of the C locale's white space.
\<close>

definition to_ascii :: "pychar \<Rightarrow> pychar option" where
  "to_ascii c =
     (if c < 127 then Some c
      else if isspace c then Some 0x20
      else map_option (\<lambda>v. ZERO + v) (decimal_value c))"

definition transform :: "pystr \<Rightarrow> pystr option" where
  "transform s = those (map to_ascii s)"

definition c_isspace :: "pychar \<Rightarrow> bool" where
  "c_isspace c = (c = 0x20 \<or> (9 \<le> c \<and> c \<le> 13))"

definition strip :: "pystr \<Rightarrow> pystr" where
  "strip s = rev (dropWhile c_isspace (rev (dropWhile c_isspace s)))"

definition split_sign :: "pystr \<Rightarrow> bool \<times> pystr" where
  "split_sign s =
     (case s of
        [] \<Rightarrow> (False, [])
      | c # r \<Rightarrow> if c = PLUS then (False, r) else if c = MINUS then (True, r) else (False, s))"

definition ascii_digit :: "pychar \<Rightarrow> bool" where
  "ascii_digit c = (ZERO \<le> c \<and> c \<le> 0x39)"

text \<open>The value of a character as a digit in bases up to 36 (0-9, a-z, A-Z).\<close>

definition digit_value :: "pychar \<Rightarrow> nat option" where
  "digit_value c =
     (if ascii_digit c then Some (c - ZERO)
      else if 0x61 \<le> c \<and> c \<le> 0x7A then Some (c - 0x61 + 10)
      else if 0x41 \<le> c \<and> c \<le> 0x5A then Some (c - 0x41 + 10)
      else None)"

text \<open>
  The digits of an integer literal in base \<open>base\<close>, read left to right into \<open>acc\<close>.
  Single underscores may separate digits: none doubled, none at the end (\<open>prev\<close> is the
  character before).
\<close>

fun digits_value :: "nat \<Rightarrow> pystr \<Rightarrow> pychar \<Rightarrow> nat \<Rightarrow> nat option" where
  "digits_value base [] prev acc = (if prev = UNDERSCORE then None else Some acc)"
| "digits_value base (c # cs) prev acc =
     (if c = UNDERSCORE then
        (if prev = UNDERSCORE then None else digits_value base cs c acc)
      else
        (case digit_value c of
           None \<Rightarrow> None
         | Some v \<Rightarrow> if v < base then digits_value base cs c (acc * base + v) else None))"

text \<open>In base 16 a prefix \<open>0x\<close> or \<open>0X\<close> is skipped, and one underscore after it.\<close>

definition strip_prefix16 :: "pystr \<Rightarrow> pystr" where
  "strip_prefix16 s =
     (case s of
        c0 # c1 # r \<Rightarrow>
          if c0 = ZERO \<and> (c1 = 0x78 \<or> c1 = 0x58)
          then (case r of [] \<Rightarrow> [] | c2 # r' \<Rightarrow> if c2 = UNDERSCORE then r' else r)
          else s
      | _ \<Rightarrow> s)"

text \<open>
  \<open>int(s)\<close> (base 10) and \<open>int(s, base=16)\<close>: \<open>None\<close> is Python's \<open>ValueError\<close>. The
  limit on the number of digits that newer interpreters can be configured with
  (\<open>sys.set_int_max_str_digits\<close>) is not modelled: integers are unbounded.
\<close>

definition py_int :: "nat \<Rightarrow> pystr \<Rightarrow> int option" where
  "py_int base s =
     (case transform s of
        None \<Rightarrow> None
      | Some t \<Rightarrow>
          (case split_sign (strip t) of
             (neg, t2) \<Rightarrow>
               (let t3 = (if base = 16 then strip_prefix16 t2 else t2) in
                if t3 = [] then None
                else if hd t3 = UNDERSCORE then None
                else map_option (\<lambda>v. if neg then - int v else int v)
                       (digits_value base t3 0 0))))"

text \<open>
  A Python float. The finite values are kept as the exact rational the decimal text
  denotes; the rounding to the nearest IEEE-754 double (and to an infinity beyond the
  range of doubles) is a function of that rational and is not modelled.
\<close>

datatype pyfloat = Finite rat | PosInf | NegInf | NaN

text \<open>
  Underscores in the text of a float: each one directly after a digit and directly before
  a digit. The function returns the text without them.
\<close>

fun remove_underscores :: "pystr \<Rightarrow> pychar \<Rightarrow> pystr option" where
  "remove_underscores [] prev = (if prev = UNDERSCORE then None else Some [])"
| "remove_underscores (c # cs) prev =
     (if c = UNDERSCORE then
        (if ascii_digit prev then remove_underscores cs c else None)
      else if prev = UNDERSCORE \<and> \<not> ascii_digit c then None
      else map_option ((#) c) (remove_underscores cs c))"

definition nat_of_digits :: "pystr \<Rightarrow> nat" where
  "nat_of_digits ds = foldl (\<lambda>a c. 10 * a + (c - ZERO)) 0 ds"

definition scale10 :: "int \<Rightarrow> int \<Rightarrow> rat" where
  "scale10 m e = (if 0 \<le> e then of_int m * 10 ^ nat e else of_int m / 10 ^ nat (- e))"

definition to_lower_ascii :: "pychar \<Rightarrow> pychar" where
  "to_lower_ascii c = (if 0x41 \<le> c \<and> c \<le> 0x5A then c + 32 else c)"

text \<open>
  The text of a float after the sign: \<open>inf\<close>, \<open>infinity\<close> or \<open>nan\<close> in any case, or
  digits, an optional dot and digits (at least one digit in all), and an optional exponent
  (\<open>e\<close> or \<open>E\<close>, an optional sign, at least one digit).
\<close>

definition float_of_ascii :: "pystr \<Rightarrow> pyfloat option" where
  "float_of_ascii s =
     (case split_sign s of
        (neg, r) \<Rightarrow>
          (let w = map to_lower_ascii r in
           if w = ascii ''inf'' \<or> w = ascii ''infinity'' then Some (if neg then NegInf else PosInf)
           else if w = ascii ''nan'' then Some NaN
           else
             (let ip = takeWhile ascii_digit r;
                  r1 = dropWhile ascii_digit r;
                  has_dot = (r1 \<noteq> [] \<and> hd r1 = DOT);
                  fp = (if has_dot then takeWhile ascii_digit (tl r1) else []);
                  r2 = (if has_dot then dropWhile ascii_digit (tl r1) else r1);
                  m = int (nat_of_digits (ip @ fp));
                  sm = (if neg then - m else m)
              in if ip = [] \<and> fp = [] then None
                 else if r2 = [] then Some (Finite (scale10 sm (- int (length fp))))
                 else if hd r2 = 0x65 \<or> hd r2 = 0x45 then
                   (case split_sign (tl r2) of
                      (eneg, ds) \<Rightarrow>
                        if ds \<noteq> [] \<and> list_all ascii_digit ds then
                          (let e = int (nat_of_digits ds) in
                           Some (Finite (scale10 sm ((if eneg then - e else e) - int (length fp)))))
                        else None)
                 else None)))"

text \<open>\<open>float(s)\<close>: \<open>None\<close> is Python's \<open>ValueError\<close>.\<close>

definition py_float :: "pystr \<Rightarrow> pyfloat option" where
  "py_float s =
     (case transform s of
        None \<Rightarrow> None
      | Some t \<Rightarrow>
          (case remove_underscores (strip t) 0 of
             None \<Rightarrow> None
           | Some u \<Rightarrow> float_of_ascii u))"

section \<open>Values and exceptions\<close>

text \<open>
  What \<open>decode\<close> returns: \<open>None\<close>, a \<open>bool\<close>, an \<open>int\<close>, a \<open>float\<close>, a \<open>str\<close>, a
  \<open>list\<close> or a \<open>dict\<close>. A \<open>dict\<close> keeps its keys in the order of their first insertion
  and \<open>obj[key] = value\<close> overwrites the value of a key that is present where it stands,
  which is \<open>AList.update\<close> on the list of its items.
\<close>

datatype json_value =
    JNull
  | JBool bool
  | JInteger int
  | JFloat pyfloat
  | JString pystr
  | JArray "json_value list"
  | JObject "(pystr \<times> json_value) list"

text \<open>
  The messages of the \<open>JSONDecodeError\<close>s the decoder raises, one constructor for each
  \<open>raise\<close> of the source (the two for a trailing comma and the two for a double comma
  carry the same text in the source).
\<close>

datatype message =
    Extra_characters_after_JSON
  | No_input
  | Invalid_JSON
  | Object_ends_without_brace
  | Keys_must_be_strings
  | Key_not_followed_by_colon
  | Two_commas_back_to_back
  | Trailing_comma
  | Keys_must_be_separated
  | Unterminated_string
  | Unescaped_control_character
  | Backslash_not_followed_by_anything
  | Invalid_escape_with_u
  | Invalid_escape
  | Dot_cannot_be_in_the_end
  | Number_cannot_begin_with_0
  | Invalid_number
  | Array_ends_without_bracket
  | Array_elements_must_be_separated
  | Invalid_literal_syntax

text \<open>
  An exception that leaves a call: the decoder's own \<open>JSONDecodeError\<close>, or one of the
  host's that the source does not catch (\<open>ValueError\<close> from \<open>int\<close>, \<open>IndexError\<close> from
  indexing a string).
\<close>

datatype exn = JSONDecodeError message | ValueError | IndexError

text \<open>The kinds of failure of the specification, by message.\<close>

datatype error_kind =
    EmptyInput | UnexpectedCharacter | ExtraCharactersAfterValue | UnterminatedContainer
  | NonStringKey | MissingColon | MissingCommaOrBrace | MissingCommaOrBracket | DoubleComma
  | TrailingComma | UnterminatedString | UnescapedControlCharacter | InvalidEscape
  | InvalidUnicodeEscape | InvalidNumber | InvalidLiteral

fun kind_of :: "message \<Rightarrow> error_kind" where
  "kind_of Extra_characters_after_JSON = ExtraCharactersAfterValue"
| "kind_of No_input = EmptyInput"
| "kind_of Invalid_JSON = UnexpectedCharacter"
| "kind_of Object_ends_without_brace = UnterminatedContainer"
| "kind_of Keys_must_be_strings = NonStringKey"
| "kind_of Key_not_followed_by_colon = MissingColon"
| "kind_of Two_commas_back_to_back = DoubleComma"
| "kind_of Trailing_comma = TrailingComma"
| "kind_of Keys_must_be_separated = MissingCommaOrBrace"
| "kind_of Unterminated_string = UnterminatedString"
| "kind_of Unescaped_control_character = UnescapedControlCharacter"
| "kind_of Backslash_not_followed_by_anything = InvalidEscape"
| "kind_of Invalid_escape_with_u = InvalidUnicodeEscape"
| "kind_of Invalid_escape = InvalidEscape"
| "kind_of Dot_cannot_be_in_the_end = InvalidNumber"
| "kind_of Number_cannot_begin_with_0 = InvalidNumber"
| "kind_of Invalid_number = InvalidNumber"
| "kind_of Array_ends_without_bracket = UnterminatedContainer"
| "kind_of Array_elements_must_be_separated = MissingCommaOrBracket"
| "kind_of Invalid_literal_syntax = InvalidLiteral"

text \<open>A call fails with a given kind when it raises a \<open>JSONDecodeError\<close> of that kind.\<close>

fun fails_with :: "(exn + 'a) option \<Rightarrow> error_kind \<Rightarrow> bool" where
  "fails_with (Some (Inl (JSONDecodeError m))) k = (kind_of m = k)"
| "fails_with _ k = False"

section \<open>The cursor\<close>

text \<open>
  The fields of a \<open>JSONDecoder\<close>: \<open>idx\<close> is the index of the last character consumed
  (\<open>-1\<close> before the first), \<open>content\<close> the text and \<open>n\<close> its length.
\<close>

record JSONDecoder =
  idx :: int
  content :: pystr
  n :: int

definition init :: "pystr \<Rightarrow> JSONDecoder" where
  "init text = \<lparr>idx = - 1, content = text, n = int (length text)\<rparr>"

definition peek :: "JSONDecoder \<Rightarrow> pychar option" where
  "peek d = (if idx d + 1 < n d then Some (content d ! nat (idx d + 1)) else None)"

definition next_char :: "JSONDecoder \<Rightarrow> pychar option \<times> JSONDecoder" where
  "next_char d =
     (case peek d of
        None \<Rightarrow> (None, d)
      | Some c \<Rightarrow> (Some c, d\<lparr>idx := idx d + 1\<rparr>))"

text \<open>The number of characters not yet consumed: what every loop of the decoder decreases.\<close>

definition remaining :: "JSONDecoder \<Rightarrow> nat" where
  "remaining d = nat (n d - (idx d + 1))"

lemma peek_Some_remaining: "peek d = Some c \<Longrightarrow> remaining (snd (next_char d)) < remaining d"
  by (auto simp: peek_def next_char_def remaining_def split: if_splits)

lemma next_char_remaining: "remaining (snd (next_char d)) \<le> remaining d"
  by (auto simp: peek_def next_char_def remaining_def split: if_splits)

definition is_whitespace :: "pychar \<Rightarrow> bool" where
  "is_whitespace c = (c = 0x20 \<or> c = 0x09 \<or> c = 0x0A \<or> c = 0x0D)"

function skip_whitespace :: "JSONDecoder \<Rightarrow> JSONDecoder" where
  "skip_whitespace d =
     (case peek d of
        None \<Rightarrow> d
      | Some c \<Rightarrow> if is_whitespace c then skip_whitespace (snd (next_char d)) else d)"
  by pat_completeness auto
termination
  by (relation "measure remaining") (auto simp: peek_Some_remaining)

declare skip_whitespace.simps [simp del]

section \<open>Strings\<close>

definition ESCAPE_CHARACTERS :: "pychar \<rightharpoonup> pychar" where
  "ESCAPE_CHARACTERS =
     map_of [(0x22, 0x22), (0x5C, 0x5C), (0x6E, 0x0A), (0x72, 0x0D), (0x74, 0x09),
             (0x62, 0x08), (0x66, 0x0C), (0x2F, 0x2F)]"

text \<open>\<open>chr(k)\<close>: a \<open>ValueError\<close> (\<open>None\<close>) outside the range of code points.\<close>

definition py_chr :: "int \<Rightarrow> pychar option" where
  "py_chr k = (if 0 \<le> k \<and> k < 0x110000 then Some (nat k) else None)"

text \<open>
  The loop \<open>for _ in range(4)\<close> after \<open>\u\<close>, with the number of rounds left: each round
  consumes a character and appends it to \<open>hex_digits\<close> if it passes the test of the
  source.
\<close>

fun read_hex_digits :: "nat \<Rightarrow> JSONDecoder \<Rightarrow> pystr \<Rightarrow> exn + (pystr \<times> JSONDecoder)" where
  "read_hex_digits 0 d hex_digits = Inr (hex_digits, d)"
| "read_hex_digits (Suc k) d hex_digits =
     (case next_char d of
        (None, d') \<Rightarrow> Inl (JSONDecodeError Invalid_escape_with_u)
      | (Some h, d') \<Rightarrow>
          if isdigit h \<or> lower_in_abcdef h then read_hex_digits k d' (hex_digits @ [h])
          else Inl (JSONDecodeError Invalid_escape_with_u))"

lemma read_hex_digits_remaining:
  "read_hex_digits k d hs = Inr (hs', d') \<Longrightarrow> remaining d' \<le> remaining d"
proof (induction k arbitrary: d hs)
  case 0
  then show ?case by simp
next
  case (Suc k)
  obtain c d1 where nc: "next_char d = (c, d1)" by (cases "next_char d")
  with Suc.prems obtain h where "c = Some h" and
    rec: "read_hex_digits k d1 (hs @ [h]) = Inr (hs', d')"
    by (cases c) (auto split: if_splits)
  from Suc.IH [OF rec] have "remaining d' \<le> remaining d1" .
  moreover from nc next_char_remaining [of d] have "remaining d1 \<le> remaining d" by simp
  ultimately show ?case by simp
qed

lemma next_char_measure:
  "next_char d = (c, d') \<Longrightarrow> remaining d' + (if c = None then 0 else 1) \<le> remaining d"
  by (auto simp: peek_def next_char_def remaining_def split: if_splits)

text \<open>
  The \<open>while True\<close> loop of \<open>_parse_string\<close>: \<open>char\<close> is the character consumed last
  (\<open>None\<close> at the end of the text), \<open>s\<close> the string so far.
\<close>

function parse_string_loop ::
  "JSONDecoder \<Rightarrow> pystr \<Rightarrow> pychar option \<Rightarrow> exn + (pystr \<times> JSONDecoder)" where
  "parse_string_loop d s char =
     (case char of
        None \<Rightarrow> Inl (JSONDecodeError Unterminated_string)
      | Some c \<Rightarrow>
          if c < 0x20 then Inl (JSONDecodeError Unescaped_control_character)
          else if c = DQUOTE then Inr (s, d)
          else if c = BACKSLASH then
            (case next_char d of
               (None, d1) \<Rightarrow> Inl (JSONDecodeError Backslash_not_followed_by_anything)
             | (Some nxt, d1) \<Rightarrow>
                 if nxt = 0x75 then
                   (case read_hex_digits 4 d1 [] of
                      Inl e \<Rightarrow> Inl e
                    | Inr (hex_digits, d2) \<Rightarrow>
                        (case py_int 16 hex_digits of
                           None \<Rightarrow> Inl ValueError
                         | Some k \<Rightarrow>
                             (case py_chr k of
                                None \<Rightarrow> Inl ValueError
                              | Some ch \<Rightarrow>
                                  (case next_char d2 of
                                     (char', d3) \<Rightarrow> parse_string_loop d3 (s @ [ch]) char'))))
                 else
                   (case ESCAPE_CHARACTERS nxt of
                      None \<Rightarrow> Inl (JSONDecodeError Invalid_escape)
                    | Some e \<Rightarrow>
                        (case next_char d1 of
                           (char', d2) \<Rightarrow> parse_string_loop d2 (s @ [e]) char')))
          else
            (case next_char d of
               (char', d1) \<Rightarrow> parse_string_loop d1 (s @ [c]) char'))"
  by pat_completeness auto
termination
proof (relation "measure (\<lambda>(d, s, char). remaining d + (if char = None then 0 else 1))",
    goal_cases)
  case 1
  show ?case by simp
next
  case (2 d s char c x y nxt b hs d2 k ch char' d3)
  have "remaining y \<le> remaining d"
    using 2(5) next_char_measure [of d x y] by simp
  moreover have "remaining d2 \<le> remaining y"
    using 2(8,9) read_hex_digits_remaining [of 4 y "[]" hs d2] by simp
  moreover have "remaining d3 + (if char' = None then 0 else 1) \<le> remaining d2"
    using 2(12) next_char_measure [of d2 char' d3] by simp
  ultimately show ?case using 2(1) by simp
next
  case (3 d s char c x y nxt e char' d2)
  have "remaining y \<le> remaining d"
    using 3(5) next_char_measure [of d x y] by simp
  moreover have "remaining d2 + (if char' = None then 0 else 1) \<le> remaining y"
    using 3(9) next_char_measure [of y char' d2] by simp
  ultimately show ?case using 3(1) by simp
next
  case (4 d s char c char' d1)
  have "remaining d1 + (if char' = None then 0 else 1) \<le> remaining d"
    using 4(5) next_char_measure [of d char' d1] by simp
  then show ?case using 4(1) by simp
qed

declare parse_string_loop.simps [simp del]

definition parse_string :: "JSONDecoder \<Rightarrow> exn + (pystr \<times> JSONDecoder)" where
  "parse_string d =
     (case next_char d of
        (quote, d0) \<Rightarrow>
          (case next_char d0 of
             (char, d1) \<Rightarrow> parse_string_loop d1 [] char))"

section \<open>Numbers and literals\<close>

text \<open>
  The collecting loop of \<open>_parse_number\<close>: every character up to the next one that is a
  Unicode space, a comma or a closing bracket or brace goes into \<open>s\<close>; \<open>isFloat\<close>
  records a dot.
\<close>

function collect_number :: "JSONDecoder \<Rightarrow> pystr \<Rightarrow> bool \<Rightarrow> pystr \<times> bool \<times> JSONDecoder" where
  "collect_number d s isFloat =
     (case peek d of
        None \<Rightarrow> (s, isFloat, d)
      | Some c \<Rightarrow>
          if \<not> isspace c \<and> c \<noteq> COMMA \<and> c \<noteq> RBRACE \<and> c \<noteq> RBRACKET
          then collect_number (snd (next_char d)) (s @ [c]) (if c = DOT then True else isFloat)
          else (s, isFloat, d))"
  by pat_completeness auto
termination
  by (relation "measure (\<lambda>(d, s, isFloat). remaining d)") (auto simp: peek_Some_remaining)

declare collect_number.simps [simp del]

text \<open>
  \<open>s[-1]\<close> raises \<open>IndexError\<close> on an empty string; \<open>s[0]\<close> and \<open>s[1]\<close> are read only
  when \<open>len(s) >= 2\<close>. The bare \<open>except\<close> turns every failure of the conversion into a
  \<open>JSONDecodeError\<close>.
\<close>

definition parse_number :: "JSONDecoder \<Rightarrow> exn + (json_value \<times> JSONDecoder)" where
  "parse_number d =
     (case collect_number d [] False of
        (s, isFloat, d') \<Rightarrow>
          if s = [] then Inl IndexError
          else if last s = DOT then Inl (JSONDecodeError Dot_cannot_be_in_the_end)
          else if 2 \<le> length s \<and> s ! 0 = ZERO \<and> isnumeric (s ! 1)
            then Inl (JSONDecodeError Number_cannot_begin_with_0)
          else if isFloat then
            (case py_float s of
               None \<Rightarrow> Inl (JSONDecodeError Invalid_number)
             | Some num \<Rightarrow> Inr (JFloat num, d'))
          else
            (case py_int 10 s of
               None \<Rightarrow> Inl (JSONDecodeError Invalid_number)
             | Some num \<Rightarrow> Inr (JInteger num, d')))"

function collect_literal :: "JSONDecoder \<Rightarrow> pystr \<Rightarrow> pystr \<times> JSONDecoder" where
  "collect_literal d s =
     (case peek d of
        None \<Rightarrow> (s, d)
      | Some c \<Rightarrow>
          if \<not> isspace c \<and> c \<noteq> COMMA \<and> c \<noteq> RBRACE \<and> c \<noteq> RBRACKET
          then collect_literal (snd (next_char d)) (s @ [c])
          else (s, d))"
  by pat_completeness auto
termination
  by (relation "measure (\<lambda>(d, s). remaining d)") (auto simp: peek_Some_remaining)

declare collect_literal.simps [simp del]

definition parse_literal :: "JSONDecoder \<Rightarrow> exn + (json_value \<times> JSONDecoder)" where
  "parse_literal d =
     (case collect_literal d [] of
        (s, d') \<Rightarrow>
          if s = ascii ''true'' then Inr (JBool True, d')
          else if s = ascii ''false'' then Inr (JBool False, d')
          else if s = ascii ''null'' then Inr (JNull, d')
          else Inl (JSONDecodeError Invalid_literal_syntax))"

section \<open>Values, objects and arrays\<close>

text \<open>
  \<open>_parse_one\<close>, \<open>_parse_object\<close> and \<open>_parse_array\<close> call each other, and the two
  container parsers loop. The recursion is on a fuel, which every call of \<open>_parse_one\<close>
  and every round of a loop decreases: \<open>None\<close> is a call that ran out of fuel. (That
  \<open>decode\<close> gives enough is proved for the results stated below: each of them is a
  \<open>Some\<close>.) The depth of the interpreter's call stack is not modelled.
\<close>

fun parse_one :: "nat \<Rightarrow> JSONDecoder \<Rightarrow> (exn + (json_value \<times> JSONDecoder)) option"
and parse_object ::
  "nat \<Rightarrow> JSONDecoder \<Rightarrow> (exn + ((pystr \<times> json_value) list \<times> JSONDecoder)) option"
and parse_object_loop ::
  "nat \<Rightarrow> JSONDecoder \<Rightarrow> (pystr \<times> json_value) list
     \<Rightarrow> (exn + ((pystr \<times> json_value) list \<times> JSONDecoder)) option"
and parse_array :: "nat \<Rightarrow> JSONDecoder \<Rightarrow> (exn + (json_value list \<times> JSONDecoder)) option"
and parse_array_loop ::
  "nat \<Rightarrow> JSONDecoder \<Rightarrow> json_value list \<Rightarrow> (exn + (json_value list \<times> JSONDecoder)) option"
where
  "parse_one 0 d = None"
| "parse_one (Suc fuel) d =
     (case peek d of
        None \<Rightarrow> Some (Inl (JSONDecodeError No_input))
      | Some first \<Rightarrow>
          if first = LBRACE then
            (case parse_object fuel d of
               None \<Rightarrow> None
             | Some (Inl e) \<Rightarrow> Some (Inl e)
             | Some (Inr (obj, d')) \<Rightarrow> Some (Inr (JObject obj, d')))
          else if first = LBRACKET then
            (case parse_array fuel d of
               None \<Rightarrow> None
             | Some (Inl e) \<Rightarrow> Some (Inl e)
             | Some (Inr (arr, d')) \<Rightarrow> Some (Inr (JArray arr, d')))
          else if first = DQUOTE then
            (case parse_string d of
               Inl e \<Rightarrow> Some (Inl e)
             | Inr (s, d') \<Rightarrow> Some (Inr (JString s, d')))
          else if first = 0x74 \<or> first = 0x66 \<or> first = 0x6E then Some (parse_literal d)
          else if first = MINUS \<or> isdigit first then Some (parse_number d)
          else Some (Inl (JSONDecodeError Invalid_JSON)))"
| "parse_object fuel d = parse_object_loop fuel (snd (next_char d)) []"
| "parse_object_loop 0 d obj = None"
| "parse_object_loop (Suc fuel) d obj =
     (let d1 = skip_whitespace d in
      case peek d1 of
        None \<Rightarrow> Some (Inl (JSONDecodeError Object_ends_without_brace))
      | Some char \<Rightarrow>
          if char = RBRACE then Some (Inr (obj, snd (next_char d1)))
          else if char \<noteq> DQUOTE then Some (Inl (JSONDecodeError Keys_must_be_strings))
          else
            (case parse_string d1 of
               Inl e \<Rightarrow> Some (Inl e)
             | Inr (key, d2) \<Rightarrow>
                 (case next_char (skip_whitespace d2) of
                    (char, d3) \<Rightarrow>
                      if char \<noteq> Some COLON
                      then Some (Inl (JSONDecodeError Key_not_followed_by_colon))
                      else
                        (case parse_one fuel (skip_whitespace d3) of
                           None \<Rightarrow> None
                         | Some (Inl e) \<Rightarrow> Some (Inl e)
                         | Some (Inr (val, d4)) \<Rightarrow>
                             (let obj' = AList.update key val obj;
                                  d5 = skip_whitespace d4 in
                              if peek d5 = Some COMMA then
                                (let d6 = skip_whitespace (snd (next_char d5)) in
                                 if peek d6 = Some COMMA
                                 then Some (Inl (JSONDecodeError Two_commas_back_to_back))
                                 else if peek d6 = Some RBRACE
                                 then Some (Inl (JSONDecodeError Trailing_comma))
                                 else parse_object_loop fuel d6 obj')
                              else if peek d5 \<noteq> Some RBRACE
                              then Some (Inl (JSONDecodeError Keys_must_be_separated))
                              else parse_object_loop fuel d5 obj')))))"
| "parse_array fuel d = parse_array_loop fuel (snd (next_char d)) []"
| "parse_array_loop 0 d arr = None"
| "parse_array_loop (Suc fuel) d arr =
     (let d1 = skip_whitespace d in
      case peek d1 of
        None \<Rightarrow> Some (Inl (JSONDecodeError Array_ends_without_bracket))
      | Some char \<Rightarrow>
          if char = RBRACKET then Some (Inr (arr, snd (next_char d1)))
          else
            (case parse_one fuel d1 of
               None \<Rightarrow> None
             | Some (Inl e) \<Rightarrow> Some (Inl e)
             | Some (Inr (element, d2)) \<Rightarrow>
                 (let d3 = skip_whitespace d2 in
                  if peek d3 = Some COMMA then
                    (let d4 = skip_whitespace (snd (next_char d3)) in
                     if peek d4 = Some COMMA
                     then Some (Inl (JSONDecodeError Two_commas_back_to_back))
                     else if peek d4 = Some RBRACKET
                     then Some (Inl (JSONDecodeError Trailing_comma))
                     else parse_array_loop fuel d4 (arr @ [element]))
                  else if peek d3 \<noteq> Some RBRACKET
                  then Some (Inl (JSONDecodeError Array_elements_must_be_separated))
                  else parse_array_loop fuel d3 (arr @ [element]))))"

section \<open>The entry point\<close>

text \<open>
  \<open>JSONDecoder.decode\<close>, on a decoder with the fuel its text needs, and the module's
  \<open>decode\<close>, which makes the decoder.
\<close>

definition decoder_decode :: "JSONDecoder \<Rightarrow> (exn + json_value) option" where
  "decoder_decode d =
     (case parse_one (2 * remaining d + 1) (skip_whitespace d) of
        None \<Rightarrow> None
      | Some (Inl e) \<Rightarrow> Some (Inl e)
      | Some (Inr (result, d')) \<Rightarrow>
          (case peek (skip_whitespace d') of
             Some char \<Rightarrow> Some (Inl (JSONDecodeError Extra_characters_after_JSON))
           | None \<Rightarrow> Some (Inr result)))"

definition decode :: "pystr \<Rightarrow> (exn + json_value) option" where
  "decode text = decoder_decode (init text)"

section \<open>Running the decoder on a given text\<close>

text \<open>
  The equations of the functions recursing on the fuel, for a fuel that is a numeral, and
  the definitions that running the decoder unfolds.
\<close>

lemmas parse_one_numeral =
  parse_one.simps(2) [of "pred_numeral k", folded numeral_eq_Suc] for k
lemmas parse_object_loop_numeral =
  parse_object_loop.simps(2) [of "pred_numeral k", folded numeral_eq_Suc] for k
lemmas parse_array_loop_numeral =
  parse_array_loop.simps(2) [of "pred_numeral k", folded numeral_eq_Suc] for k
lemmas read_hex_digits_numeral =
  read_hex_digits.simps(2) [of "pred_numeral k", folded numeral_eq_Suc] for k

lemmas run_cursor = init_def remaining_def ascii_def peek_def next_char_def
  skip_whitespace.simps is_whitespace_def Let_def

lemmas run_tables = isspace_def isdigit_def isnumeric_def in_ranges_def space_ranges_def
  digit_ranges_def numeric_ranges_def decimal_value_def decimal_ranges_def lower_in_abcdef_def

lemmas run_convert = py_chr_def py_int_def py_float_def transform_def to_ascii_def strip_def
  c_isspace_def split_sign_def ascii_digit_def digit_value_def strip_prefix16_def
  float_of_ascii_def nat_of_digits_def scale10_def to_lower_ascii_def

lemmas run_decode = parse_one_numeral parse_object_loop_numeral parse_array_loop_numeral
  read_hex_digits_numeral decode_def decoder_decode_def parse_string_def
  parse_string_loop.simps ESCAPE_CHARACTERS_def parse_number_def collect_number.simps
  parse_literal_def collect_literal.simps run_cursor run_tables run_convert

section \<open>Facts about the character classes and the exceptions\<close>

lemma isspace_iff:
  "isspace c = (9 \<le> c \<and> c \<le> 13 \<or> 28 \<le> c \<and> c \<le> 32 \<or> c = 133 \<or> c = 160 \<or> c = 5760
     \<or> 8192 \<le> c \<and> c \<le> 8202 \<or> 8232 \<le> c \<and> c \<le> 8233 \<or> c = 8239 \<or> c = 8287 \<or> c = 12288)"
  unfolding isspace_def in_ranges_def space_ranges_def by (simp add: eq_iff)

lemma isdigit_ge: "isdigit c \<Longrightarrow> 48 \<le> c"
  by (auto simp: isdigit_def in_ranges_def digit_ranges_def)

lemma isdigit_gap: "isdigit c \<Longrightarrow> c < 8192 \<or> 8233 < c"
  by (auto simp: isdigit_def in_ranges_def digit_ranges_def)

lemma not_isdigit_points:
  "\<not> isdigit 93" "\<not> isdigit 125" "\<not> isdigit 133" "\<not> isdigit 160" "\<not> isdigit 5760"
  "\<not> isdigit 8239" "\<not> isdigit 8287" "\<not> isdigit 12288"
  by (simp_all add: isdigit_def in_ranges_def digit_ranges_def)

lemma isdigit_not_isspace: "isdigit c \<Longrightarrow> \<not> isspace c"
  using isdigit_ge [of c] isdigit_gap [of c] not_isdigit_points
  by (auto simp: isspace_iff)

lemma isdigit_not_closer: "isdigit c \<Longrightarrow> c \<noteq> COMMA \<and> c \<noteq> RBRACE \<and> c \<noteq> RBRACKET"
  using isdigit_ge [of c] not_isdigit_points by auto


lemma collect_number_extends: "\<exists>tok. fst (collect_number d s f) = s @ tok"
proof (induction d s f rule: collect_number.induct)
  case (1 d s isFloat)
  show ?case
  proof (cases "peek d")
    case None
    then show ?thesis by (simp add: collect_number.simps)
  next
    case (Some c)
    show ?thesis
    proof (cases "\<not> isspace c \<and> c \<noteq> COMMA \<and> c \<noteq> RBRACE \<and> c \<noteq> RBRACKET")
      case True
      from 1 [OF Some True] obtain tok where
        "fst (collect_number (snd (next_char d)) (s @ [c]) (if c = DOT then True else isFloat))
           = (s @ [c]) @ tok" by blast
      with Some True show ?thesis by (subst collect_number.simps) simp
    next
      case False
      with Some show ?thesis by (subst collect_number.simps) auto
    qed
  qed
qed

lemma collect_number_first:
  assumes "peek d = Some c" and "c = MINUS \<or> isdigit c"
  shows "\<exists>tok. fst (collect_number d [] False) = c # tok"
proof -
  have ok: "\<not> isspace c \<and> c \<noteq> COMMA \<and> c \<noteq> RBRACE \<and> c \<noteq> RBRACKET"
    using assms(2) isdigit_not_isspace [of c] isdigit_not_closer [of c]
    by (auto simp: isspace_iff)
  obtain tok where
    "fst (collect_number (snd (next_char d)) ([] @ [c]) (if c = DOT then True else False))
       = ([] @ [c]) @ tok"
    using collect_number_extends by blast
  with assms(1) ok show ?thesis by (subst collect_number.simps) simp
qed

lemma parse_number_no_IndexError:
  assumes "peek d = Some c" and "c = MINUS \<or> isdigit c"
  shows "parse_number d \<noteq> Inl IndexError"
proof -
  obtain s isFloat d' where col: "collect_number d [] False = (s, isFloat, d')"
    by (cases "collect_number d [] False") auto
  from collect_number_first [OF assms] col have "s \<noteq> []" by auto
  with col show ?thesis
    by (auto simp: parse_number_def split: option.splits)
qed

lemma read_hex_digits_error:
  "read_hex_digits k d hs = Inl e \<Longrightarrow> e = JSONDecodeError Invalid_escape_with_u"
  by (induction k arbitrary: d hs) (auto split: prod.splits option.splits if_splits)

lemma parse_string_loop_no_IndexError: "parse_string_loop d s char \<noteq> Inl IndexError"
proof (induction d s char rule: parse_string_loop.induct)
  case (1 d s char)
  show ?case
    apply (subst parse_string_loop.simps)
    using 1
    apply (auto split: option.splits prod.splits sum.splits dest!: read_hex_digits_error)
    done
qed

lemma parse_string_no_IndexError: "parse_string d \<noteq> Inl IndexError"
  by (simp add: parse_string_def parse_string_loop_no_IndexError split: prod.splits)

lemma parse_literal_no_IndexError: "parse_literal d \<noteq> Inl IndexError"
  by (simp add: parse_literal_def split: prod.splits)


lemma no_IndexError_all:
  "(\<forall>d. parse_one fuel d \<noteq> Some (Inl IndexError))
   \<and> (\<forall>d obj. parse_object_loop fuel d obj \<noteq> Some (Inl IndexError))
   \<and> (\<forall>d arr. parse_array_loop fuel d arr \<noteq> Some (Inl IndexError))"
proof (induction fuel)
  case 0
  show ?case by simp
next
  case (Suc fuel)
  then have one: "\<And>d. parse_one fuel d \<noteq> Some (Inl IndexError)"
    and obj: "\<And>d obj. parse_object_loop fuel d obj \<noteq> Some (Inl IndexError)"
    and arr: "\<And>d arr. parse_array_loop fuel d arr \<noteq> Some (Inl IndexError)"
    by blast+
  have "parse_one (Suc fuel) d \<noteq> Some (Inl IndexError)" for d
    using obj arr parse_string_no_IndexError [of d] parse_literal_no_IndexError [of d]
      parse_number_no_IndexError [of d]
    by (auto split: option.splits sum.splits prod.splits)
  moreover have "parse_object_loop (Suc fuel) d ob \<noteq> Some (Inl IndexError)" for d ob
    using one obj parse_string_no_IndexError [of "skip_whitespace d"]
    by (auto simp: Let_def split: option.splits sum.splits prod.splits if_splits)
  moreover have "parse_array_loop (Suc fuel) d ar \<noteq> Some (Inl IndexError)" for d ar
    using one arr
    by (auto simp: Let_def split: option.splits sum.splits prod.splits if_splits)
  ultimately show ?case by blast
qed

lemma decoder_decode_Inl:
  assumes "decoder_decode d = Some (Inl e)"
  shows "parse_one (2 * remaining d + 1) (skip_whitespace d) = Some (Inl e)
         \<or> e = JSONDecodeError Extra_characters_after_JSON"
proof (cases "parse_one (2 * remaining d + 1) (skip_whitespace d)")
  case None
  with assms show ?thesis by (simp add: decoder_decode_def del: parse_one.simps)
next
  case (Some r)
  with assms show ?thesis
    by (cases r) (auto simp add: decoder_decode_def simp del: parse_one.simps split: option.splits)
qed

lemma decode_no_IndexError: "decode text \<noteq> Some (Inl IndexError)"
  using no_IndexError_all decoder_decode_Inl [of "init text" IndexError]
  unfolding decode_def by blast

section \<open>The number parser never indexes an empty token\<close>

text \<open>
  C10. When the dispatcher calls the number parser the next character is a minus sign or
  satisfies \<open>isdigit\<close>, and such a character is no delimiter of the collecting loop. The
  collected token then starts with that character: it is not empty, so \<open>s[-1]\<close> does not
  raise (\<open>s[0]\<close> and \<open>s[1]\<close> are read only under \<open>len(s) >= 2\<close>), and no \<open>IndexError\<close>
  leaves the number parser, \<open>_parse_one\<close> or \<open>decode\<close>, whatever the text.
\<close>

theorem C10_number_token_nonempty:
  "(peek d = Some c \<longrightarrow> (c = MINUS \<or> isdigit c) \<longrightarrow>
      (\<exists>tok. fst (collect_number d [] False) = c # tok) \<and> parse_number d \<noteq> Inl IndexError)
   \<and> parse_one fuel d \<noteq> Some (Inl IndexError)
   \<and> decode text \<noteq> Some (Inl IndexError)"
  using collect_number_first [of d c] parse_number_no_IndexError [of d c]
    no_IndexError_all [of fuel] decode_no_IndexError [of "text"]
  by blast

theorem C10_number_token_nonempty_witness:
  "peek (init (ascii ''-5'')) = Some MINUS
   \<and> (\<exists>tok. fst (collect_number (init (ascii ''-5'')) [] False) = MINUS # tok)
   \<and> parse_number (init (ascii ''-5'')) \<noteq> Inl IndexError
   \<and> parse_one 3 (init (ascii ''-5'')) \<noteq> Some (Inl IndexError)
   \<and> decode (ascii ''-5'') \<noteq> Some (Inl IndexError)"
proof -
  have p: "peek (init (ascii ''-5'')) = Some MINUS"
    by (simp add: run_cursor)
  show ?thesis
    using p C10_number_token_nonempty [of "init (ascii ''-5'')" MINUS 3 "ascii ''-5''"]
    by blast
qed

section \<open>Where the decoder accepts more than its grammar\<close>

text \<open>
  C2. A number whose digits begin with \<open>0\<close> followed by another digit is to fail with
  InvalidNumber, with or without a minus sign. The test of the source reads \<open>s[0]\<close> and
  \<open>s[1]\<close> of the collected token, and the token of \<open>-01\<close> begins with the minus sign:
  the test passes, \<open>int\<close> accepts the leading zero, and \<open>decode\<close> returns \<open>-1\<close>. Without
  the sign the same digits are refused.
\<close>

theorem C2_leading_zero_after_minus:
  "decode (ascii ''-01'') = Some (Inr (JInteger (- 1)))
   \<and> decode (ascii ''-00.1'') = Some (Inr (JFloat (Finite (- (1 / 10)))))
   \<and> fails_with (decode (ascii ''01'')) InvalidNumber
   \<and> fails_with (decode (ascii ''00.1'')) InvalidNumber"
  by (simp add: run_decode)

text \<open>
  C3. A number with an exponent is to fail with InvalidNumber. The collected token is
  converted by \<open>int\<close> when it has no dot, which refuses the letter, and by \<open>float\<close> when it
  has one, which reads the exponent: \<open>1e10\<close> and \<open>-2E-5\<close> fail, \<open>1.5e3\<close> is decoded as
  the float 1500.
\<close>

theorem C3_exponent_after_dot:
  "decode (ascii ''1.5e3'') = Some (Inr (JFloat (Finite 1500)))
   \<and> fails_with (decode (ascii ''1e10'')) InvalidNumber
   \<and> fails_with (decode (ascii ''-2E-5'')) InvalidNumber"
  by (simp add: run_decode)

text \<open>
  C4. Only a minus sign or an ASCII digit is to reach the number parser, and any other
  first character of a value (a digit of another script among them) is to fail with
  UnexpectedCharacter. The dispatcher tests \<open>first.isdigit()\<close>, which holds of the digits
  of every script: ARABIC-INDIC DIGIT ONE (U+0661) reaches the number parser, \<open>int\<close>
  reads it, and \<open>decode\<close> returns 1. SUPERSCRIPT TWO (U+00B2) reaches it as well and fails
  there, with InvalidNumber.
\<close>

theorem C4_non_ascii_digit_dispatched:
  "decode [0x661] = Some (Inr (JInteger 1))
   \<and> fails_with (decode [0xB2]) InvalidNumber
   \<and> fails_with (decode (ascii ''+1'')) UnexpectedCharacter
   \<and> fails_with (decode []) EmptyInput"
  by (simp add: run_decode)

text \<open>
  C5. Each of the four characters after \<open>\u\<close> is to be an ASCII hexadecimal digit, and
  anything else is to fail with InvalidUnicodeEscape. The test of the source is
  \<open>hd.isdigit() or hd.lower() in "abcdef"\<close>, which the digits of every script pass: the
  string \<open>"\u\<close> followed by four times U+0661 and the closing quote is decoded as the one
  character U+1111. A letter that is no hexadecimal digit is refused.
\<close>

theorem C5_non_ascii_digit_in_escape:
  "decode ([DQUOTE, BACKSLASH, 0x75, 0x661, 0x661, 0x661, 0x661, DQUOTE])
     = Some (Inr (JString [0x1111]))
   \<and> fails_with (decode ([DQUOTE, BACKSLASH] @ ascii ''u00G1'' @ [DQUOTE]))
        InvalidUnicodeEscape"
  by (simp add: run_decode)

text \<open>
  C6. No exception other than \<open>JSONDecodeError\<close> is to leave \<open>decode\<close>. The conversion
  \<open>int(hex_digits, base=16)\<close> of a Unicode escape stands outside every \<open>try\<close>: SUPERSCRIPT
  TWO (U+00B2) passes \<open>isdigit\<close> and is no decimal digit, so on the string \<open>"\u00\<close>,
  U+00B2, \<open>0"\<close> the \<open>ValueError\<close> of \<open>int\<close> leaves \<open>decode\<close>, at the top level and inside
  an array.
\<close>

theorem C6_value_error_escapes:
  "decode [DQUOTE, BACKSLASH, 0x75, 0x30, 0x30, 0xB2, 0x30, DQUOTE] = Some (Inl ValueError)
   \<and> decode [LBRACKET, DQUOTE, BACKSLASH, 0x75, 0x30, 0x30, 0xB2, 0x30, DQUOTE, RBRACKET]
       = Some (Inl ValueError)"
  by (simp add: run_decode)

end
